theory Spec2Isabelle
  imports Complex_Main "HOL-Library.Sublist"
begin

section \<open>Strings: the Go library functions the validator calls\<close>

text \<open>
  A Go string is a byte sequence, here a \<^typ>\<open>string\<close>.  \<open>strings.Split(s, sep)\<close> with a
  one-byte separator cuts at every separator and keeps empty pieces; the empty string
  gives one empty piece.
\<close>

fun Split :: "string \<Rightarrow> char \<Rightarrow> string list" where
  "Split [] sep = [[]]"
| "Split (c # cs) sep =
     (if c = sep then [] # Split cs sep
      else (case Split cs sep of [] \<Rightarrow> [[c]] | f # fs \<Rightarrow> (c # f) # fs))"

text \<open>
  \<open>strings.TrimSpace\<close> removes leading and trailing white space as Unicode defines it:
  the six ASCII characters, and U+0085, U+00A0, U+1680, U+2000 to U+200A, U+2028,
  U+2029, U+202F, U+205F and U+3000 in their UTF-8 encodings.
\<close>

definition asciiSpace :: "char \<Rightarrow> bool" where
  "asciiSpace c \<longleftrightarrow> c \<in> {CHR 0x09, CHR 0x0A, CHR 0x0B, CHR 0x0C, CHR 0x0D, CHR 0x20}"

definition space2 :: "char \<Rightarrow> char \<Rightarrow> bool" where
  "space2 a b \<longleftrightarrow> a = CHR 0xC2 \<and> (b = CHR 0x85 \<or> b = CHR 0xA0)"

definition space3 :: "char \<Rightarrow> char \<Rightarrow> char \<Rightarrow> bool" where
  "space3 a b c \<longleftrightarrow>
     (a = CHR 0xE1 \<and> b = CHR 0x9A \<and> c = CHR 0x80) \<or>
     (a = CHR 0xE2 \<and> b = CHR 0x80 \<and>
        ((0x80 \<le> (of_char c :: nat) \<and> (of_char c :: nat) \<le> 0x8A) \<or> c = CHR 0xA8 \<or> c = CHR 0xA9 \<or> c = CHR 0xAF)) \<or>
     (a = CHR 0xE2 \<and> b = CHR 0x81 \<and> c = CHR 0x9F) \<or>
     (a = CHR 0xE3 \<and> b = CHR 0x80 \<and> c = CHR 0x80)"

fun TrimLeftSpace :: "string \<Rightarrow> string" where
  "TrimLeftSpace (a # b # c # s) =
     (if asciiSpace a then TrimLeftSpace (b # c # s)
      else if space2 a b then TrimLeftSpace (c # s)
      else if space3 a b c then TrimLeftSpace s
      else a # b # c # s)"
| "TrimLeftSpace [a, b] =
     (if asciiSpace a then TrimLeftSpace [b]
      else if space2 a b then [] else [a, b])"
| "TrimLeftSpace [a] = (if asciiSpace a then [] else [a])"
| "TrimLeftSpace [] = []"

text \<open>The same from the right, on the reversed string: the last rune is read backwards.\<close>

fun TrimRightSpaceRev :: "string \<Rightarrow> string" where
  "TrimRightSpaceRev (c # b # a # s) =
     (if asciiSpace c then TrimRightSpaceRev (b # a # s)
      else if space2 b c then TrimRightSpaceRev (a # s)
      else if space3 a b c then TrimRightSpaceRev s
      else c # b # a # s)"
| "TrimRightSpaceRev [c, b] =
     (if asciiSpace c then TrimRightSpaceRev [b]
      else if space2 b c then [] else [c, b])"
| "TrimRightSpaceRev [c] = (if asciiSpace c then [] else [c])"
| "TrimRightSpaceRev [] = []"

definition TrimSpace :: "string \<Rightarrow> string" where
  "TrimSpace s = rev (TrimRightSpaceRev (rev (TrimLeftSpace s)))"

subsection \<open>Decimal digits\<close>

definition isDigit :: "char \<Rightarrow> bool" where
  "isDigit c \<longleftrightarrow> 48 \<le> (of_char c :: nat) \<and> (of_char c :: nat) \<le> 57"

definition digitVal :: "char \<Rightarrow> int" where
  "digitVal c = of_char c - 48"

text \<open>The value of a digit string, most significant digit first.\<close>

definition decValue :: "string \<Rightarrow> int" where
  "decValue s = foldl (\<lambda>v c. v * 10 + digitVal c) 0 s"

definition allDigits :: "string \<Rightarrow> bool" where
  "allDigits s \<longleftrightarrow> s \<noteq> [] \<and> list_all isDigit s"

text \<open>
  \<open>strconv.ParseInt(s, 10, 64)\<close>: an optional sign, then one or more decimal digits and
  nothing else (with an explicit base there are no prefixes and no underscores); a value
  outside the 64-bit signed range is an error.
\<close>

definition ParseInt :: "string \<Rightarrow> int option" where
  "ParseInt s =
     (if s = [] then None
      else let neg = (hd s = CHR ''-'');
               ds = (if hd s = CHR ''+'' \<or> hd s = CHR ''-'' then tl s else s)
           in if \<not> allDigits ds then None
              else let un = decValue ds
                   in if \<not> neg \<and> un \<ge> 2 ^ 63 then None
                      else if neg \<and> un > 2 ^ 63 then None
                      else Some (if neg then - un else un))"

subsection \<open>IP addresses\<close>

text \<open>
  \<open>net.ParseIP\<close> (Go 1.21, the toolchain the build uses) hands the text to
  \<open>netip.ParseAddr\<close>: the first \<open>.\<close>, \<open>:\<close> or \<open>%\<close> in it decides between the IPv4 parser,
  the IPv6 parser and an error.  The IPv4 parser wants exactly four dot-separated
  fields, each one to three digits, at most 255 and with no leading zero.
  The result is the 16-byte form of the address.
\<close>

definition octetOk :: "string \<Rightarrow> bool" where
  "octetOk f \<longleftrightarrow> allDigits f \<and> (length f = 1 \<or> hd f \<noteq> CHR ''0'') \<and> decValue f \<le> 255"

definition parseIPv4 :: "string \<Rightarrow> int list option" where
  "parseIPv4 s =
     (let fs = Split s (CHR ''.'')
      in if length fs = 4 \<and> list_all octetOk fs
         then Some (replicate 10 0 @ [255, 255] @ map decValue fs) else None)"

text \<open>
  Floating point and the IPv6 grammar belong to the Go library and are not part of the
  repository.  They enter the model as parameters:
  \<^item> \<open>ParseFloat\<close> is \<open>strconv.ParseFloat(s, 64)\<close>, \<open>None\<close> when it returns an error;
  \<^item> \<open>parseIPv6\<close> is the IPv6 branch of \<open>netip.ParseAddr\<close>, giving the 16 bytes of an
    address without zone;
  \<^item> \<open>UnixSeconds\<close> is \<open>float64(t.UnixNano())/1e9\<close> for a time \<open>t\<close> given by its
    nanoseconds since the epoch.
  A \<open>float64\<close> is a NaN, an infinity or a finite value; finite values are kept as the
  rationals they denote, and comparisons follow IEEE 754: every comparison with a NaN
  is false.
\<close>

datatype f64 = NaN | NegInf | Fin rat | PosInf

fun f64_less :: "f64 \<Rightarrow> f64 \<Rightarrow> bool" where
  "f64_less NaN _ = False"
| "f64_less _ NaN = False"
| "f64_less (Fin x) (Fin y) = (x < y)"
| "f64_less NegInf b = (b \<noteq> NegInf)"
| "f64_less a PosInf = (a \<noteq> PosInf)"
| "f64_less _ _ = False"

definition f64_greater :: "f64 \<Rightarrow> f64 \<Rightarrow> bool" where
  "f64_greater a b = f64_less b a"

definition f64_le :: "f64 \<Rightarrow> f64 \<Rightarrow> bool" where
  "f64_le a b \<longleftrightarrow> a \<noteq> NaN \<and> b \<noteq> NaN \<and> \<not> f64_less b a"

record golib =
  ParseFloat :: "string \<Rightarrow> f64 option"
  parseIPv6 :: "string \<Rightarrow> int list option"
  UnixSeconds :: "int \<Rightarrow> f64"

definition ParseAddr :: "golib \<Rightarrow> string \<Rightarrow> int list option" where
  "ParseAddr lib s =
     (case find (\<lambda>c. c = CHR ''.'' \<or> c = CHR '':'' \<or> c = CHR ''%'') s of
        None \<Rightarrow> None
      | Some c \<Rightarrow> if c = CHR ''.'' then parseIPv4 s
                  else if c = CHR '':'' then parseIPv6 lib s
                  else None)"

text \<open>\<open>IP.To4\<close>: the last four bytes of a 16-byte address with the IPv4-in-IPv6 prefix.\<close>

definition To4 :: "int list \<Rightarrow> int list option" where
  "To4 ip = (if length ip = 16 \<and> take 10 ip = replicate 10 0 \<and> ip ! 10 = 255 \<and> ip ! 11 = 255
             then Some (drop 12 ip) else None)"

definition validIPv4 :: "golib \<Rightarrow> string \<Rightarrow> bool" where
  "validIPv4 lib s = (case ParseAddr lib s of None \<Rightarrow> False | Some ip \<Rightarrow> To4 ip \<noteq> None)"

section \<open>The validator (validator.go)\<close>

definition parseInt :: "string \<Rightarrow> int option" where
  "parseInt s = (let s' = TrimSpace s in if s' = [] then None else ParseInt s')"

definition validPort :: "string \<Rightarrow> bool" where
  "validPort s = (case parseInt s of None \<Rightarrow> False | Some v \<Rightarrow> v \<ge> 0 \<and> v \<le> 65535)"

definition validByte :: "string \<Rightarrow> bool" where
  "validByte s = (case parseInt s of None \<Rightarrow> False | Some v \<Rightarrow> v \<ge> 0 \<and> v \<le> 255)"

definition validUint :: "string \<Rightarrow> bool" where
  "validUint s = (case parseInt s of None \<Rightarrow> False | Some v \<Rightarrow> v \<ge> 0)"

definition parseEpochSeconds :: "golib \<Rightarrow> string \<Rightarrow> f64 option" where
  "parseEpochSeconds lib s =
     (let s' = TrimSpace s
      in if s' = [] then None
         else (case ParseFloat lib s' of
                 None \<Rightarrow> None
               | Some v \<Rightarrow> if f64_less v (Fin 0) then None else Some v))"

text \<open>
  \<open>ValidateLine(line, now)\<close> returns the verdict and the reason; \<open>now\<close> is the time in
  nanoseconds since the epoch.
\<close>

definition ValidateLine :: "golib \<Rightarrow> string \<Rightarrow> int \<Rightarrow> bool \<times> string" where
  "ValidateLine lib line now =
     (let fields = Split line (CHR '','')
      in if length fields \<noteq> 11 then (False, ''column count != 11'')
      else let sip = TrimSpace (fields ! 0); dip = TrimSpace (fields ! 1)
      in if \<not> validIPv4 lib sip then (False, ''SRC_IP is not valid'')
      else if \<not> validIPv4 lib dip then (False, ''DST_IP is not valid'')
      else if \<not> validPort (fields ! 2) then (False, ''SRC_PORT is not valid'')
      else if \<not> validPort (fields ! 3) then (False, ''DST_PORT is not valid'')
      else if \<not> validByte (fields ! 4) then (False, ''TCP_FLAGS is not valid'')
      else if \<not> validByte (fields ! 5) then (False, ''PROTOCOL is not valid'')
      else if \<not> validByte (fields ! 6) then (False, ''TOS is not valid'')
      else (case parseEpochSeconds lib (fields ! 7) of
              None \<Rightarrow> (False, ''TIMESTAMP_MIN is not valid'')
            | Some tmin \<Rightarrow>
         (case parseEpochSeconds lib (fields ! 8) of
              None \<Rightarrow> (False, ''TIMESTAMP_MAX is not valid'')
            | Some tmax \<Rightarrow>
           if f64_greater tmin tmax then (False, ''TIMESTAMP_MAX is not valid'')
           else if f64_greater tmax (UnixSeconds lib now) then (False, ''TIMESTAMP_MAX is not valid'')
           else if \<not> validUint (fields ! 9) then (False, ''PACKETS is not valid'')
           else if \<not> validUint (fields ! 10) then (False, ''BYTES is not valid'')
           else (True, []))))"


subsection \<open>The checks as the specification lists them\<close>

text \<open>
  The specification names six checks, in this order: (1) field count, (2) both IPs,
  (3) both ports, (4) flags, protocol and ToS, (5) the two timestamps, (6) the two
  counts.  \<open>checkPasses\<close> says what each one demands of the fields, \<open>firstFailure\<close>
  is the first one that fails, and \<open>reasonCheck\<close> files each reason text of the code
  under the check it reports.
\<close>

datatype check = FieldCount | IPs | Ports | Bytes | Timestamps | Counts

definition timestampsOk :: "golib \<Rightarrow> string \<Rightarrow> string \<Rightarrow> int \<Rightarrow> bool" where
  "timestampsOk lib smin smax now =
     (case (parseEpochSeconds lib smin, parseEpochSeconds lib smax) of
        (Some tmin, Some tmax) \<Rightarrow>
          \<not> f64_greater tmin tmax \<and> \<not> f64_greater tmax (UnixSeconds lib now)
      | _ \<Rightarrow> False)"

fun checkPasses :: "golib \<Rightarrow> string list \<Rightarrow> int \<Rightarrow> check \<Rightarrow> bool" where
  "checkPasses lib fs now FieldCount = (length fs = 11)"
| "checkPasses lib fs now IPs =
     (validIPv4 lib (TrimSpace (fs ! 0)) \<and> validIPv4 lib (TrimSpace (fs ! 1)))"
| "checkPasses lib fs now Ports = (validPort (fs ! 2) \<and> validPort (fs ! 3))"
| "checkPasses lib fs now Bytes =
     (validByte (fs ! 4) \<and> validByte (fs ! 5) \<and> validByte (fs ! 6))"
| "checkPasses lib fs now Timestamps = timestampsOk lib (fs ! 7) (fs ! 8) now"
| "checkPasses lib fs now Counts = (validUint (fs ! 9) \<and> validUint (fs ! 10))"


definition reasonCheck :: "string \<Rightarrow> check option" where
  "reasonCheck r =
     (if r = ''column count != 11'' then Some FieldCount
      else if r = ''SRC_IP is not valid'' \<or> r = ''DST_IP is not valid'' then Some IPs
      else if r = ''SRC_PORT is not valid'' \<or> r = ''DST_PORT is not valid'' then Some Ports
      else if r = ''TCP_FLAGS is not valid'' \<or> r = ''PROTOCOL is not valid''
              \<or> r = ''TOS is not valid'' then Some Bytes
      else if r = ''TIMESTAMP_MIN is not valid'' \<or> r = ''TIMESTAMP_MAX is not valid''
           then Some Timestamps
      else if r = ''PACKETS is not valid'' \<or> r = ''BYTES is not valid'' then Some Counts
      else None)"

text \<open>
  A library instance to evaluate the validator with.  It reads a digit string below
  \<open>2^53\<close> as that number, which is what \<open>strconv.ParseFloat\<close> returns for it (the
  value is a \<open>float64\<close>), and refuses everything else; it parses no IPv6 text; and it
  turns nanoseconds into seconds by the exact quotient, which is the value of
  \<open>float64(n)/1e9\<close> at the whole seconds used below.
\<close>

definition declib :: golib where
  "declib = \<lparr> ParseFloat = (\<lambda>s. if allDigits s \<and> decValue s < 2 ^ 53
                                   then Some (Fin (of_int (decValue s))) else None),
              parseIPv6 = (\<lambda>s. None),
              UnixSeconds = (\<lambda>n. Fin (of_int n / 1000000000)) \<rparr>"


section \<open>Properties of the validator\<close>

lemma reasonCheck_simps:
  "reasonCheck ''column count != 11'' = Some FieldCount"
  "reasonCheck ''SRC_IP is not valid'' = Some IPs"
  "reasonCheck ''DST_IP is not valid'' = Some IPs"
  "reasonCheck ''SRC_PORT is not valid'' = Some Ports"
  "reasonCheck ''DST_PORT is not valid'' = Some Ports"
  "reasonCheck ''TCP_FLAGS is not valid'' = Some Bytes"
  "reasonCheck ''PROTOCOL is not valid'' = Some Bytes"
  "reasonCheck ''TOS is not valid'' = Some Bytes"
  "reasonCheck ''TIMESTAMP_MIN is not valid'' = Some Timestamps"
  "reasonCheck ''TIMESTAMP_MAX is not valid'' = Some Timestamps"
  "reasonCheck ''PACKETS is not valid'' = Some Counts"
  "reasonCheck ''BYTES is not valid'' = Some Counts"
  by (simp_all add: reasonCheck_def)







section \<open>Well-formed lines\<close>

text \<open>
  The decimal text of a natural number, as \<open>strconv.Itoa\<close> writes it, the fields of a
  line joined by a separator, and the dotted-quad text of four octets.  These say what
  the specification means by an integer field and by an IPv4 address.
\<close>

definition digitChar :: "nat \<Rightarrow> char" where
  "digitChar d = ''0123456789'' ! d"

function showDec :: "nat \<Rightarrow> string" where
  "showDec n = (if n < 10 then [digitChar n]
                else showDec (n div 10) @ [digitChar (n mod 10)])"
  by pat_completeness auto
termination
  by (relation "measure id") auto

declare showDec.simps [simp del]

fun Join :: "string list \<Rightarrow> char \<Rightarrow> string" where
  "Join [] sep = []"
| "Join [f] sep = f"
| "Join (f # g # fs) sep = f @ sep # Join (g # fs) sep"

definition ipv4Text :: "nat \<Rightarrow> nat \<Rightarrow> nat \<Rightarrow> nat \<Rightarrow> string" where
  "ipv4Text a b c d = Join [showDec a, showDec b, showDec c, showDec d] (CHR ''.'')"

text \<open>An ASCII character that is not white space.\<close>

definition plainChar :: "char \<Rightarrow> bool" where
  "plainChar c \<longleftrightarrow> (of_char c :: nat) < 128 \<and> \<not> asciiSpace c"


lemma decValue_snoc: "decValue (s @ [c]) = decValue s * 10 + digitVal c"
  by (simp add: decValue_def)

lemma lt10: "(d::nat) < 10 \<Longrightarrow> d \<in> {0,1,2,3,4,5,6,7,8,9}"
  by auto

lemma digitChar_props:
  "d < 10 \<Longrightarrow> isDigit (digitChar d) \<and> digitVal (digitChar d) = int d
     \<and> (0 < d \<longrightarrow> digitChar d \<noteq> CHR ''0'')"
  by (drule lt10) (auto simp: isDigit_def digitVal_def digitChar_def)

lemma showDec_digits: "list_all isDigit (showDec n) \<and> showDec n \<noteq> []"
proof (induction n rule: showDec.induct)
  case (1 n)
  show ?case
  proof (cases "n < 10")
    case True
    then show ?thesis using digitChar_props [of n] by (simp add: showDec.simps [of n])
  next
    case False
    have "n mod 10 < 10" by simp
    with False 1 digitChar_props [of "n mod 10"] show ?thesis
      by (simp add: showDec.simps [of n])
  qed
qed

lemma showDec_allDigits: "allDigits (showDec n)"
  using showDec_digits [of n] by (simp add: allDigits_def)

lemma decValue_showDec: "decValue (showDec n) = int n"
proof (induction n rule: showDec.induct)
  case (1 n)
  show ?case
  proof (cases "n < 10")
    case True
    then show ?thesis using digitChar_props [of n]
      by (simp add: showDec.simps [of n] decValue_def)
  next
    case False
    have "n mod 10 < 10" by simp
    with False 1 digitChar_props [of "n mod 10"] show ?thesis
      by (simp add: showDec.simps [of n] decValue_snoc zmod_int zdiv_int)
  qed
qed

lemma showDec_hd: "0 < n \<Longrightarrow> hd (showDec n) \<noteq> CHR ''0''"
proof (induction n rule: showDec.induct)
  case (1 n)
  show ?case
  proof (cases "n < 10")
    case True
    with "1.prems" show ?thesis using digitChar_props [of n]
      by (simp add: showDec.simps [of n])
  next
    case False
    then have "0 < n div 10" by simp
    with False 1 have "hd (showDec (n div 10)) \<noteq> CHR ''0''" by simp
    with False showDec_digits [of "n div 10"] show ?thesis
      by (simp add: showDec.simps [of n])
  qed
qed

lemma showDec_small: "n < 10 \<Longrightarrow> length (showDec n) = 1"
  by (simp add: showDec.simps [of n])

lemma octetOk_showDec: "n \<le> 255 \<Longrightarrow> octetOk (showDec n)"
  using showDec_hd [of n] showDec_small [of n]
  by (cases "n < 10") (auto simp: octetOk_def showDec_allDigits decValue_showDec)

lemma isDigit_plain: "isDigit c \<Longrightarrow> plainChar c"
  by (auto simp: isDigit_def plainChar_def asciiSpace_def)

lemma plain_not_space2: "plainChar a \<Longrightarrow> \<not> space2 a b" "plainChar b \<Longrightarrow> \<not> space2 a b"
  by (auto simp: plainChar_def space2_def)

lemma plain_not_space3: "plainChar a \<Longrightarrow> \<not> space3 a b c" "plainChar c \<Longrightarrow> \<not> space3 a b c"
  by (auto simp: plainChar_def space3_def)

lemma TrimLeftSpace_plain: "s \<noteq> [] \<Longrightarrow> plainChar (hd s) \<Longrightarrow> TrimLeftSpace s = s"
  by (cases s rule: TrimLeftSpace.cases)
     (auto simp: plain_not_space2 plain_not_space3 plainChar_def)

lemma TrimRightSpaceRev_plain: "s \<noteq> [] \<Longrightarrow> plainChar (hd s) \<Longrightarrow> TrimRightSpaceRev s = s"
  by (cases s rule: TrimRightSpaceRev.cases)
     (auto simp: plain_not_space2 plain_not_space3 plainChar_def)

lemma TrimSpace_plain:
  "s \<noteq> [] \<Longrightarrow> plainChar (hd s) \<Longrightarrow> plainChar (last s) \<Longrightarrow> TrimSpace s = s"
  by (simp add: TrimSpace_def TrimLeftSpace_plain TrimRightSpaceRev_plain hd_rev)

lemma showDec_hd_last: "isDigit (hd (showDec n)) \<and> isDigit (last (showDec n))"
  using showDec_digits [of n] by (cases "showDec n") (auto simp: list_all_iff)

lemma TrimSpace_showDec: "TrimSpace (showDec n) = showDec n"
  using showDec_hd_last [of n] showDec_digits [of n]
  by (intro TrimSpace_plain) (auto intro: isDigit_plain)

lemma isDigit_not_sign: "isDigit c \<Longrightarrow> c \<noteq> CHR ''-'' \<and> c \<noteq> CHR ''+'' \<and> c \<noteq> CHR '',''
    \<and> c \<noteq> CHR ''.'' \<and> c \<noteq> CHR '':'' \<and> c \<noteq> CHR ''%''"
  by (auto simp: isDigit_def)

lemma parseInt_showDec: "int n < 2 ^ 63 \<Longrightarrow> parseInt (showDec n) = Some (int n)"
  using showDec_hd_last [of n] showDec_digits [of n] isDigit_not_sign [of "hd (showDec n)"]
  by (simp add: parseInt_def TrimSpace_showDec ParseInt_def Let_def showDec_allDigits
        decValue_showDec)

lemma validPort_showDec: "n \<le> 65535 \<Longrightarrow> validPort (showDec n)"
  by (simp add: validPort_def parseInt_showDec)

lemma validByte_showDec: "n \<le> 255 \<Longrightarrow> validByte (showDec n)"
  by (simp add: validByte_def parseInt_showDec)

lemma validUint_showDec: "int n < 2 ^ 63 \<Longrightarrow> validUint (showDec n)"
  by (simp add: validUint_def parseInt_showDec)

lemma Split_nonempty: "Split s sep \<noteq> []"
  by (induction s) (auto split: list.splits)

lemma Split_no_sep: "sep \<notin> set s \<Longrightarrow> Split s sep = [s]"
  by (induction s) auto

lemma Split_append: "sep \<notin> set s \<Longrightarrow> Split (s @ sep # t) sep = s # Split t sep"
  by (induction s) auto

lemma Split_Join:
  "fs \<noteq> [] \<Longrightarrow> (\<And>f. f \<in> set fs \<Longrightarrow> sep \<notin> set f) \<Longrightarrow> Split (Join fs sep) sep = fs"
proof (induction fs sep rule: Join.induct)
  case (1 sep)
  then show ?case by simp
next
  case (2 f sep)
  then show ?case by (simp add: Split_no_sep)
next
  case (3 f g fs sep)
  then show ?case by (simp add: Split_append)
qed

lemma showDec_no_char: "\<not> isDigit c \<Longrightarrow> c \<notin> set (showDec n)"
  using showDec_digits [of n] by (auto simp: list_all_iff)

lemma find_append_first:
  "(\<And>x. x \<in> set xs \<Longrightarrow> \<not> P x) \<Longrightarrow> P y \<Longrightarrow> find P (xs @ y # ys) = Some y"
  by (induction xs) auto

lemma ipv4Text_unfold:
  "ipv4Text a b c d = showDec a @ CHR ''.'' # showDec b @ CHR ''.'' # showDec c @ CHR ''.'' # showDec d"
  by (simp add: ipv4Text_def)

lemma Split_ipv4Text:
  "Split (ipv4Text a b c d) (CHR ''.'') = [showDec a, showDec b, showDec c, showDec d]"
  unfolding ipv4Text_def
  by (rule Split_Join) (auto simp: showDec_no_char isDigit_def)

lemma parseIPv4_ipv4Text:
  "a \<le> 255 \<Longrightarrow> b \<le> 255 \<Longrightarrow> c \<le> 255 \<Longrightarrow> d \<le> 255 \<Longrightarrow>
   parseIPv4 (ipv4Text a b c d) = Some (replicate 10 0 @ [255, 255, int a, int b, int c, int d])"
  by (simp add: parseIPv4_def Split_ipv4Text octetOk_showDec decValue_showDec)

lemma ParseAddr_ipv4Text:
  "ParseAddr lib (ipv4Text a b c d) = parseIPv4 (ipv4Text a b c d)"
proof -
  have "find (\<lambda>c. c = CHR ''.'' \<or> c = CHR '':'' \<or> c = CHR ''%'') (ipv4Text a b c d)
          = Some (CHR ''.'')"
    unfolding ipv4Text_unfold
    by (rule find_append_first) (auto simp: showDec_no_char isDigit_def)
  then show ?thesis by (simp add: ParseAddr_def)
qed

lemma To4_mapped: "To4 (replicate 10 0 @ [255, 255, a, b, c, d]) = Some [a, b, c, d]"
  by (simp add: To4_def nth_append)

lemma TrimSpace_ipv4Text: "TrimSpace (ipv4Text a b c d) = ipv4Text a b c d"
proof (rule TrimSpace_plain)
  show "ipv4Text a b c d \<noteq> []" by (simp add: ipv4Text_unfold)
  show "plainChar (hd (ipv4Text a b c d))"
    using showDec_hd_last [of a] showDec_digits [of a]
    by (simp add: ipv4Text_unfold isDigit_plain)
  show "plainChar (last (ipv4Text a b c d))"
    using showDec_hd_last [of d] showDec_digits [of d]
    by (simp add: ipv4Text_unfold isDigit_plain)
qed

lemma validIPv4_ipv4Text:
  "a \<le> 255 \<Longrightarrow> b \<le> 255 \<Longrightarrow> c \<le> 255 \<Longrightarrow> d \<le> 255 \<Longrightarrow>
   validIPv4 lib (TrimSpace (ipv4Text a b c d))"
  by (simp add: validIPv4_def TrimSpace_ipv4Text ParseAddr_ipv4Text parseIPv4_ipv4Text To4_mapped)

lemma comma_not_in_ipv4Text: "CHR '','' \<notin> set (ipv4Text a b c d)"
  by (auto simp: ipv4Text_unfold showDec_no_char isDigit_def)

lemma parseEpochSeconds_ok:
  "TrimSpace s \<noteq> [] \<Longrightarrow> ParseFloat lib (TrimSpace s) = Some v \<Longrightarrow> f64_le (Fin 0) v \<Longrightarrow>
   parseEpochSeconds lib s = Some v"
  by (simp add: parseEpochSeconds_def f64_le_def)

lemma f64_le_not_greater: "f64_le a b \<Longrightarrow> \<not> f64_greater a b"
  by (simp add: f64_le_def f64_greater_def)

lemma wellformed_fields:
  assumes "a0 \<le> 255" "a1 \<le> 255" "a2 \<le> 255" "a3 \<le> 255"
    and "b0 \<le> 255" "b1 \<le> 255" "b2 \<le> 255" "b3 \<le> 255"
    and "sp \<le> 65535" "dp \<le> 65535"
    and "fl \<le> 255" "pr \<le> 255" "tos \<le> 255"
    and "int pk < 2 ^ 63" "int bc < 2 ^ 63"
    and "CHR '','' \<notin> set smin" "CHR '','' \<notin> set smax"
    and "TrimSpace smin \<noteq> []" "ParseFloat lib (TrimSpace smin) = Some tmin"
    and "TrimSpace smax \<noteq> []" "ParseFloat lib (TrimSpace smax) = Some tmax"
    and "f64_le (Fin 0) tmin" "f64_le (Fin 0) tmax"
    and "f64_le tmin tmax" "f64_le tmax (UnixSeconds lib now)"
  shows "ValidateLine lib
           (Join [ipv4Text a0 a1 a2 a3, ipv4Text b0 b1 b2 b3, showDec sp, showDec dp,
                  showDec fl, showDec pr, showDec tos, smin, smax, showDec pk, showDec bc]
              (CHR '','')) now = (True, [])"
proof -
  let ?fs = "[ipv4Text a0 a1 a2 a3, ipv4Text b0 b1 b2 b3, showDec sp, showDec dp,
              showDec fl, showDec pr, showDec tos, smin, smax, showDec pk, showDec bc]"
  have digits: "\<And>n. CHR '','' \<notin> set (showDec n)"
    by (rule showDec_no_char) (simp add: isDigit_def)
  have split: "Split (Join ?fs (CHR '','')) (CHR '','') = ?fs"
    using assms(16,17) by (intro Split_Join) (auto simp: digits comma_not_in_ipv4Text)
  have ts0: "parseEpochSeconds lib smin = Some tmin"
    using assms(18,19,22) by (intro parseEpochSeconds_ok)
  have ts1: "parseEpochSeconds lib smax = Some tmax"
    using assms(20,21,23) by (intro parseEpochSeconds_ok)
  have ord: "\<not> f64_greater tmin tmax" "\<not> f64_greater tmax (UnixSeconds lib now)"
    using assms(24,25) by (simp_all add: f64_le_not_greater)
  have nths: "?fs ! 0 = ipv4Text a0 a1 a2 a3" "?fs ! 1 = ipv4Text b0 b1 b2 b3"
     "?fs ! 2 = showDec sp" "?fs ! 3 = showDec dp" "?fs ! 4 = showDec fl"
     "?fs ! 5 = showDec pr" "?fs ! 6 = showDec tos" "?fs ! 7 = smin" "?fs ! 8 = smax"
     "?fs ! 9 = showDec pk" "?fs ! 10 = showDec bc" "length ?fs = 11"
    by simp_all
  show ?thesis
    unfolding ValidateLine_def split Let_def nths
    using assms(1-15) ts0 ts1 ord
    by (simp add: validIPv4_ipv4Text validPort_showDec validByte_showDec validUint_showDec)
qed

lemma scenario_text:
  "Join [ipv4Text 10 0 0 1, ipv4Text 10 0 0 2, showDec 1234, showDec 80,
         showDec 24, showDec 6, showDec 0, ''1700000000'', ''1700000005'', showDec 10,
         showDec 1500] (CHR '','')
   = ''10.0.0.1,10.0.0.2,1234,80,24,6,0,1700000000,1700000005,10,1500''"
  by code_simp

lemma scenario_line:
  assumes "ParseFloat lib ''1700000000'' = Some (Fin 1700000000)"
    and "ParseFloat lib ''1700000005'' = Some (Fin 1700000005)"
    and "f64_le (Fin 1700000005) (UnixSeconds lib now)"
  shows "ValidateLine lib ''10.0.0.1,10.0.0.2,1234,80,24,6,0,1700000000,1700000005,10,1500''
           now = (True, [])"
proof -
  have t: "TrimSpace ''1700000000'' = ''1700000000''" "TrimSpace ''1700000005'' = ''1700000005''"
    by code_simp+
  have "ValidateLine lib
          (Join [ipv4Text 10 0 0 1, ipv4Text 10 0 0 2, showDec 1234, showDec 80,
                 showDec 24, showDec 6, showDec 0, ''1700000000'', ''1700000005'', showDec 10,
                 showDec 1500] (CHR '','')) now = (True, [])"
    using assms
    by (intro wellformed_fields [where tmin = "Fin 1700000000" and tmax = "Fin 1700000005"])
       (simp_all add: t f64_le_def)
  then show ?thesis by (simp only: scenario_text)
qed

text \<open>
  Claim C7, as amended.  A line of eleven comma-separated fields is accepted when its
  two IPs are dotted quads of octets, its ports are decimal integers in \<open>[0,65535]\<close>, its
  flags, protocol and ToS are decimal integers in \<open>[0,255]\<close>, its two timestamps parse
  as non-negative floats with window start \<open>\<le>\<close> window end \<open>\<le>\<close> the current time, and its
  two counts are decimal integers from \<open>0\<close> to \<open>2^63 - 1\<close>.  In particular the line
  \<open>10.0.0.1,10.0.0.2,1234,80,24,6,0,1700000000,1700000005,10,1500\<close> is accepted when the
  current time is at least 1700000005 seconds.  The bound on the counts is the amendment:
  the code reads them with \<open>strconv.ParseInt(s, 10, 64)\<close>.
\<close>

theorem ValidateLine_accepts_wellformed:
  "(a0 \<le> 255 \<and> a1 \<le> 255 \<and> a2 \<le> 255 \<and> a3 \<le> 255
    \<and> b0 \<le> 255 \<and> b1 \<le> 255 \<and> b2 \<le> 255 \<and> b3 \<le> 255
    \<and> sp \<le> 65535 \<and> dp \<le> 65535
    \<and> fl \<le> 255 \<and> pr \<le> 255 \<and> tos \<le> 255
    \<and> int pk < 2 ^ 63 \<and> int bc < 2 ^ 63
    \<and> CHR '','' \<notin> set smin \<and> CHR '','' \<notin> set smax
    \<and> TrimSpace smin \<noteq> [] \<and> ParseFloat lib (TrimSpace smin) = Some tmin
    \<and> TrimSpace smax \<noteq> [] \<and> ParseFloat lib (TrimSpace smax) = Some tmax
    \<and> f64_le (Fin 0) tmin \<and> f64_le (Fin 0) tmax
    \<and> f64_le tmin tmax \<and> f64_le tmax (UnixSeconds lib now)
    \<longrightarrow>
      ValidateLine lib
        (Join [ipv4Text a0 a1 a2 a3, ipv4Text b0 b1 b2 b3, showDec sp, showDec dp,
               showDec fl, showDec pr, showDec tos, smin, smax, showDec pk, showDec bc]
           (CHR '','')) now = (True, []))
   \<and> (ParseFloat lib ''1700000000'' = Some (Fin 1700000000)
      \<and> ParseFloat lib ''1700000005'' = Some (Fin 1700000005)
      \<and> f64_le (Fin 1700000005) (UnixSeconds lib now)
      \<longrightarrow>
        ValidateLine lib ''10.0.0.1,10.0.0.2,1234,80,24,6,0,1700000000,1700000005,10,1500''
          now = (True, []))"
proof (intro conjI impI)
  assume h: "a0 \<le> 255 \<and> a1 \<le> 255 \<and> a2 \<le> 255 \<and> a3 \<le> 255
    \<and> b0 \<le> 255 \<and> b1 \<le> 255 \<and> b2 \<le> 255 \<and> b3 \<le> 255
    \<and> sp \<le> 65535 \<and> dp \<le> 65535
    \<and> fl \<le> 255 \<and> pr \<le> 255 \<and> tos \<le> 255
    \<and> int pk < 2 ^ 63 \<and> int bc < 2 ^ 63
    \<and> CHR '','' \<notin> set smin \<and> CHR '','' \<notin> set smax
    \<and> TrimSpace smin \<noteq> [] \<and> ParseFloat lib (TrimSpace smin) = Some tmin
    \<and> TrimSpace smax \<noteq> [] \<and> ParseFloat lib (TrimSpace smax) = Some tmax
    \<and> f64_le (Fin 0) tmin \<and> f64_le (Fin 0) tmax
    \<and> f64_le tmin tmax \<and> f64_le tmax (UnixSeconds lib now)"
  show "ValidateLine lib
        (Join [ipv4Text a0 a1 a2 a3, ipv4Text b0 b1 b2 b3, showDec sp, showDec dp,
               showDec fl, showDec pr, showDec tos, smin, smax, showDec pk, showDec bc]
           (CHR '','')) now = (True, [])"
    by (rule wellformed_fields [where tmin = tmin and tmax = tmax]) (use h in blast)+
next
  assume "ParseFloat lib ''1700000000'' = Some (Fin 1700000000)
      \<and> ParseFloat lib ''1700000005'' = Some (Fin 1700000005)
      \<and> f64_le (Fin 1700000005) (UnixSeconds lib now)"
  then show "ValidateLine lib
        ''10.0.0.1,10.0.0.2,1234,80,24,6,0,1700000000,1700000005,10,1500'' now = (True, [])"
    by (intro scenario_line) simp_all
qed

text \<open>
  The theorem at the evaluation library, one second after the window: a line with the
  largest port, byte and count values, and the scenario's line.
\<close>

theorem ValidateLine_accepts_wellformed_witness:
  "ValidateLine declib
     (Join [ipv4Text 192 168 0 1, ipv4Text 10 0 0 255, showDec 65535, showDec 0,
            showDec 255, showDec 17, showDec 0, ''1700000000'', ''1700000005'',
            showDec 9223372036854775807, showDec 0] (CHR '','')) 1700000006000000000
     = (True, [])
   \<and> ValidateLine declib
       ''10.0.0.1,10.0.0.2,1234,80,24,6,0,1700000000,1700000005,10,1500''
       1700000006000000000 = (True, [])"
proof -
  have t: "CHR '','' \<notin> set ''1700000000'' \<and> CHR '','' \<notin> set ''1700000005''
      \<and> TrimSpace ''1700000000'' \<noteq> []
      \<and> ParseFloat declib (TrimSpace ''1700000000'') = Some (Fin 1700000000)
      \<and> TrimSpace ''1700000005'' \<noteq> []
      \<and> ParseFloat declib (TrimSpace ''1700000005'') = Some (Fin 1700000005)
      \<and> f64_le (Fin 0) (Fin 1700000000) \<and> f64_le (Fin 0) (Fin 1700000005)
      \<and> f64_le (Fin 1700000000) (Fin 1700000005)
      \<and> f64_le (Fin 1700000005) (UnixSeconds declib 1700000006000000000)"
    by code_simp
  have r: "(192::nat) \<le> 255 \<and> (168::nat) \<le> 255 \<and> (0::nat) \<le> 255 \<and> (1::nat) \<le> 255
      \<and> (10::nat) \<le> 255 \<and> (0::nat) \<le> 255 \<and> (0::nat) \<le> 255 \<and> (255::nat) \<le> 255
      \<and> (65535::nat) \<le> 65535 \<and> (0::nat) \<le> 65535
      \<and> (255::nat) \<le> 255 \<and> (17::nat) \<le> 255 \<and> (0::nat) \<le> 255
      \<and> int 9223372036854775807 < 2 ^ 63 \<and> int 0 < 2 ^ 63"
    by simp
  have h: "ParseFloat declib ''1700000000'' = Some (Fin 1700000000)
      \<and> ParseFloat declib ''1700000005'' = Some (Fin 1700000005)
      \<and> f64_le (Fin 1700000005) (UnixSeconds declib 1700000006000000000)"
    by code_simp
  from t r h
    ValidateLine_accepts_wellformed
      [of 192 168 0 1 10 0 0 255 65535 0 255 17 0 9223372036854775807 0
          "''1700000000''" "''1700000005''" declib "Fin 1700000000" "Fin 1700000005"
          1700000006000000000]
  show ?thesis by blast
qed

text \<open>
  Claim C7 as the specification states it fails: a byte count of \<open>2^63\<close> is a non-negative
  integer, every other field is the scenario's, and the line is rejected.
\<close>

theorem ValidateLine_rejects_count_2_63:
  "decValue ''9223372036854775808'' = 2 ^ 63
   \<and> ValidateLine declib
       ''10.0.0.1,10.0.0.2,1234,80,24,6,0,1700000000,1700000005,10,9223372036854775808''
       1700000006000000000 = (False, ''BYTES is not valid'')"
  by code_simp


section \<open>The ingest loop and the error file (main.go, errorlog)\<close>

text \<open>
  \<open>strings.Contains\<close>, and the value \<open>strconv.ParseInt\<close> returns beside its error: zero
  after a syntax error, the nearest bound after a range error.
\<close>

fun Contains :: "string \<Rightarrow> string \<Rightarrow> bool" where
  "Contains [] sub = (sub = [])"
| "Contains (c # s) sub = (prefix sub (c # s) \<or> Contains s sub)"

definition ParseIntValue :: "string \<Rightarrow> int" where
  "ParseIntValue s =
     (case ParseInt s of
        Some v \<Rightarrow> v
      | None \<Rightarrow>
          if s = [] then 0
          else let neg = (hd s = CHR ''-'');
                   ds = (if hd s = CHR ''+'' \<or> hd s = CHR ''-'' then tl s else s)
               in if \<not> allDigits ds then 0 else if neg then - (2 ^ 63) else 2 ^ 63 - 1)"

text \<open>
  What the loop meets outside itself, by the number of the line being read (from 0):
  whether the context is found cancelled at the top of the iteration, the clock, how the
  send on the channel ends, whether the write to the error file fails, and whether the
  scanner ends with an error.  \<open>toLower\<close> is \<open>strings.ToLower\<close>, a library parameter.
\<close>

datatype send_outcome = Sent | SendCancelled | SendTimedOut

datatype ingest_error = CtxCancelled | ReadFailed

record ingest_env =
  ctxDone :: "nat \<Rightarrow> bool"
  timeNow :: "nat \<Rightarrow> int"
  sendOutcome :: "nat \<Rightarrow> send_outcome"
  errWriteFails :: "nat \<Rightarrow> bool"
  scanFails :: bool
  toLower :: "string \<Rightarrow> string"
  lib :: golib

text \<open>The arguments of \<open>runIngest\<close>: which of the optional collaborators are there.\<close>

record ingest_args =
  hasReporter :: bool
  chanTimeout :: int
  hasErrWriter :: bool
  hasCsvTotal :: bool
  hasCsvDNS :: bool

record DataLine =
  Line :: string
  IsHeader :: bool

text \<open>
  The loop's variables, and what it has produced: the records appended to
  \<open>error/errorline.csv\<close> (line number, line, reason; the CSV quoting is left out), the
  lines sent on the channel, the calls of \<open>reporter.Add\<close> and the two counters.
\<close>

record ingest_state =
  lineCount :: int
  headerProcessed :: bool
  packetIdx :: int
  octetIdx :: int
  errorFile :: "(int \<times> string \<times> string) list"
  dataChan :: "DataLine list"
  reporterAdds :: "(int \<times> int) list"
  csvTotal :: int
  csvDNS :: int

definition headerKeywords :: "string list" where
  "headerKeywords =
     [''flowstart'', ''timestamp'',
      ''src_ip'', ''dst_ip'', ''src_host'', ''dst_host'',
      ''src_port'', ''dst_port'', ''protocol'', ''proto'', ''tos'',
      ''tcp_flags'', ''timestamp_min'', ''timestamp_max'',
      ''packet'', ''packets'', ''octet'', ''bytes'']"

definition isHeaderLine :: "ingest_env \<Rightarrow> string \<Rightarrow> bool" where
  "isHeaderLine env line = list_ex (Contains (toLower env line)) headerKeywords"

definition isDNSLine :: "string \<Rightarrow> bool" where
  "isDNSLine line =
     (let fields = Split line (CHR '','')
      in if length fields < 4 then False
         else TrimSpace (fields ! 2) = ''53'' \<or> TrimSpace (fields ! 3) = ''53'')"

definition parseCounts :: "string \<Rightarrow> int \<Rightarrow> int \<Rightarrow> int \<times> int" where
  "parseCounts line pktIdx byteIdx =
     (let fields = Split line (CHR ''|'')
      in if pktIdx \<ge> int (length fields) \<or> byteIdx \<ge> int (length fields) then (0, 0)
         else (ParseIntValue (TrimSpace (fields ! nat pktIdx)),
               ParseIntValue (TrimSpace (fields ! nat byteIdx))))"

text \<open>The header's fields, cut at \<open>|\<close>: the positions of the two statistics columns.\<close>

fun headerIndexes :: "string list \<Rightarrow> int \<Rightarrow> ingest_state \<Rightarrow> ingest_state" where
  "headerIndexes [] i st = st"
| "headerIndexes (f # fs) i st =
     headerIndexes fs (i + 1)
       (if TrimSpace f = ''packetTotalCount'' then st\<lparr>packetIdx := i\<rparr>
        else if TrimSpace f = ''octetTotalCount'' then st\<lparr>octetIdx := i\<rparr>
        else st)"

text \<open>\<open>LineWriter.Write\<close>: one record more at the end of the file, unless the write fails.\<close>

definition LineWriter_Write ::
  "bool \<Rightarrow> int \<Rightarrow> string \<Rightarrow> string \<Rightarrow> (int \<times> string \<times> string) list
     \<Rightarrow> (int \<times> string \<times> string) list" where
  "LineWriter_Write fails n line reason file =
     (if fails then file else file @ [(n, line, reason)])"

text \<open>
  \<open>NewLineWriter\<close> opens the file with \<open>O_CREATE|O_APPEND|O_WRONLY\<close>: what the file held
  stays, and the loop starts from it.
\<close>

definition initial_state :: "(int \<times> string \<times> string) list \<Rightarrow> ingest_state" where
  "initial_state file =
     \<lparr> lineCount = 0, headerProcessed = False, packetIdx = - 1, octetIdx = - 1,
       errorFile = file, dataChan = [], reporterAdds = [], csvTotal = 0, csvDNS = 0 \<rparr>"

text \<open>
  The body of the \<open>for\<close> loop on a non-empty line, \<open>i\<close> the number of the line from 0.
  It ends in \<open>continue\<close> (or the end of the body) with the new variables, or in
  \<open>return\<close>.  \<open>countLine\<close> is the bookkeeping of an accepted line, \<open>sendLine\<close> the
  \<open>select\<close> that puts it on the channel.
\<close>

datatype loop_step = Continue ingest_state | Return "ingest_error option" ingest_state

definition countLine :: "ingest_args \<Rightarrow> string \<Rightarrow> ingest_state \<Rightarrow> ingest_state" where
  "countLine args line st =
     (let st1 = (if hasCsvTotal args then st\<lparr>csvTotal := csvTotal st + 1\<rparr> else st);
          st2 = (if hasCsvDNS args \<and> isDNSLine line
                 then st1\<lparr>csvDNS := csvDNS st1 + 1\<rparr> else st1)
      in if hasReporter args \<and> packetIdx st2 \<ge> 0 \<and> octetIdx st2 \<ge> 0
         then (case parseCounts line (packetIdx st2) (octetIdx st2) of
                 (pkts, bytes) \<Rightarrow>
                   if pkts > 0 \<or> bytes > 0
                   then st2\<lparr>reporterAdds := reporterAdds st2 @ [(pkts, bytes)]\<rparr>
                   else st2)
         else st2)"

definition sendLine ::
  "ingest_env \<Rightarrow> ingest_args \<Rightarrow> nat \<Rightarrow> string \<Rightarrow> ingest_state \<Rightarrow> loop_step" where
  "sendLine env args i line st =
     (let sent = st\<lparr>dataChan := dataChan st @ [\<lparr>Line = line, IsHeader = False\<rparr>]\<rparr>
      in case sendOutcome env i of
           SendCancelled \<Rightarrow> Return (Some CtxCancelled) st
         | Sent \<Rightarrow> Continue (sent\<lparr>lineCount := lineCount st + 1\<rparr>)
         | SendTimedOut \<Rightarrow>
             if chanTimeout args \<le> 0 then Continue (sent\<lparr>lineCount := lineCount st + 1\<rparr>)
             else Continue (st\<lparr>lineCount := lineCount st + 1\<rparr>))"

definition ingestLine ::
  "ingest_env \<Rightarrow> ingest_args \<Rightarrow> nat \<Rightarrow> string \<Rightarrow> ingest_state \<Rightarrow> loop_step" where
  "ingestLine env args i line st =
     (let currentLineNo = lineCount st + 1
      in if \<not> headerProcessed st \<and> isHeaderLine env line
         then Continue (headerIndexes (Split line (CHR ''|'')) 0 (st\<lparr>headerProcessed := True\<rparr>))
         else (case ValidateLine (lib env) line (timeNow env i) of
                 (False, reason) \<Rightarrow>
                   Continue
                     (st\<lparr>errorFile :=
                           (if hasErrWriter args
                            then LineWriter_Write (errWriteFails env i) currentLineNo line reason
                                   (errorFile st)
                            else errorFile st),
                         lineCount := lineCount st + 1\<rparr>)
               | (True, reason) \<Rightarrow> sendLine env args i line (countLine args line st)))"

text \<open>
  The loop, one pass per input line; the empty list is the end of the input.  In
  \<open>sendLine\<close> a timeout can only happen with a positive \<open>chanTimeout\<close>; without one the
  send waits until it goes through.
\<close>

fun runIngest_from ::
  "ingest_env \<Rightarrow> ingest_args \<Rightarrow> nat \<Rightarrow> string list \<Rightarrow> ingest_state
     \<Rightarrow> ingest_error option \<times> ingest_state" where
  "runIngest_from env args i [] st =
     (if ctxDone env i then (Some CtxCancelled, st)
      else if scanFails env then (Some ReadFailed, st)
      else (None, st))"
| "runIngest_from env args i (line # rest) st =
     (if ctxDone env i then (Some CtxCancelled, st)
      else if line = [] then runIngest_from env args (i + 1) rest st
      else (case ingestLine env args i line st of
              Continue st' \<Rightarrow> runIngest_from env args (i + 1) rest st'
            | Return e st' \<Rightarrow> (e, st')))"

definition runIngest ::
  "ingest_env \<Rightarrow> ingest_args \<Rightarrow> (int \<times> string \<times> string) list \<Rightarrow> string list
     \<Rightarrow> ingest_error option \<times> ingest_state" where
  "runIngest env args file input = runIngest_from env args 0 input (initial_state file)"

subsection \<open>The lines that reach the validator, and the records they leave\<close>

text \<open>
  The lines the loop validates, each with its position in the input (from 0): the
  non-empty lines, except the first one that looks like a header, up to the point where
  the loop ends, which is the end of the input, an iteration that finds the context
  cancelled, or an accepted line whose send is cancelled.
\<close>

fun validatedLines :: "ingest_env \<Rightarrow> bool \<Rightarrow> nat \<Rightarrow> string list \<Rightarrow> (nat \<times> string) list" where
  "validatedLines env hp i [] = []"
| "validatedLines env hp i (line # rest) =
     (if ctxDone env i then []
      else if line = [] then validatedLines env hp (i + 1) rest
      else if \<not> hp \<and> isHeaderLine env line then validatedLines env True (i + 1) rest
      else (i, line) #
        (if fst (ValidateLine (lib env) line (timeNow env i)) \<and> sendOutcome env i = SendCancelled
         then [] else validatedLines env hp (i + 1) rest))"

text \<open>
  The records of the rejected lines among them: the \<open>k\<close>-th validated line carries the
  number \<open>n + k\<close>, counting from 1.
\<close>

fun rejectRecords ::
  "ingest_env \<Rightarrow> int \<Rightarrow> (nat \<times> string) list \<Rightarrow> (int \<times> string \<times> string) list" where
  "rejectRecords env n [] = []"
| "rejectRecords env n ((i, line) # rest) =
     (case ValidateLine (lib env) line (timeNow env i) of
        (False, reason) \<Rightarrow> (n + 1, line, reason) # rejectRecords env (n + 1) rest
      | (True, reason) \<Rightarrow> rejectRecords env (n + 1) rest)"

text \<open>
  Two environments to evaluate the loop in.  In \<open>calm\<close> nothing is cancelled, nothing
  fails, every send goes through, the clock stands at 1700000006 seconds, and \<open>toLower\<close>
  lowers the ASCII capitals, as \<open>strings.ToLower\<close> does on ASCII text.  In \<open>cancelledAt k\<close>
  the iteration on line \<open>k\<close> (from 0) finds the context cancelled, and every send from
  line \<open>k - 1\<close> on is cancelled.
\<close>

definition asciiLower :: "string \<Rightarrow> string" where
  "asciiLower s =
     map (\<lambda>c. if 65 \<le> (of_char c :: nat) \<and> (of_char c :: nat) \<le> 90
              then char_of (of_char c + (32 :: nat)) else c) s"

definition calm :: ingest_env where
  "calm = \<lparr> ctxDone = (\<lambda>i. False), timeNow = (\<lambda>i. 1700000006000000000),
            sendOutcome = (\<lambda>i. Sent), errWriteFails = (\<lambda>i. False), scanFails = False,
            toLower = asciiLower, lib = declib \<rparr>"

definition cancelledAt :: "nat \<Rightarrow> ingest_env" where
  "cancelledAt k = calm\<lparr>ctxDone := (\<lambda>i. k \<le> i),
                        sendOutcome := (\<lambda>i. if k \<le> i + 1 then SendCancelled else Sent)\<rparr>"

definition allArgs :: ingest_args where
  "allArgs = \<lparr> hasReporter = True, chanTimeout = 0, hasErrWriter = True,
               hasCsvTotal = True, hasCsvDNS = True \<rparr>"


subsection \<open>What the loop writes to the error file\<close>

lemma headerIndexes_keeps:
  "lineCount (headerIndexes fs i st) = lineCount st
   \<and> errorFile (headerIndexes fs i st) = errorFile st
   \<and> headerProcessed (headerIndexes fs i st) = headerProcessed st"
  by (induction fs i st rule: headerIndexes.induct) auto

lemma countLine_keeps:
  "lineCount (countLine args line st) = lineCount st
   \<and> errorFile (countLine args line st) = errorFile st
   \<and> headerProcessed (countLine args line st) = headerProcessed st"
  by (simp add: countLine_def Let_def split: prod.splits)

lemma sendLine_cases:
  "sendOutcome env i \<noteq> SendCancelled \<Longrightarrow>
   \<exists>st'. sendLine env args i line st = Continue st' \<and> lineCount st' = lineCount st + 1
     \<and> errorFile st' = errorFile st \<and> headerProcessed st' = headerProcessed st"
  by (cases "sendOutcome env i") (simp_all add: sendLine_def Let_def)

lemma sendLine_cancelled:
  "sendOutcome env i = SendCancelled \<Longrightarrow>
   sendLine env args i line st = Return (Some CtxCancelled) st"
  by (simp add: sendLine_def Let_def)

lemma sendLine_errorFile:
  "sendLine env args i line st = Continue st' \<or> sendLine env args i line st = Return e st'
   \<Longrightarrow> errorFile st' = errorFile st"
  by (cases "sendOutcome env i") (auto simp: sendLine_def Let_def split: if_splits)

text \<open>The body on a header line.\<close>

lemma ingestLine_header:
  "\<not> headerProcessed st \<Longrightarrow> isHeaderLine env line \<Longrightarrow>
   \<exists>st'. ingestLine env args i line st = Continue st' \<and> lineCount st' = lineCount st
     \<and> errorFile st' = errorFile st \<and> headerProcessed st'"
  by (simp add: ingestLine_def headerIndexes_keeps)

lemma ingestLine_rejected:
  "headerProcessed st \<or> \<not> isHeaderLine env line \<Longrightarrow>
   ValidateLine (lib env) line (timeNow env i) = (False, reason) \<Longrightarrow>
   hasErrWriter args \<Longrightarrow> \<not> errWriteFails env i \<Longrightarrow>
   \<exists>st'. ingestLine env args i line st = Continue st' \<and> lineCount st' = lineCount st + 1
     \<and> errorFile st' = errorFile st @ [(lineCount st + 1, line, reason)]
     \<and> headerProcessed st' = headerProcessed st"
  by (auto simp: ingestLine_def LineWriter_Write_def)

lemma ingestLine_accepted:
  "headerProcessed st \<or> \<not> isHeaderLine env line \<Longrightarrow>
   ValidateLine (lib env) line (timeNow env i) = (True, reason) \<Longrightarrow>
   sendOutcome env i \<noteq> SendCancelled \<Longrightarrow>
   \<exists>st'. ingestLine env args i line st = Continue st' \<and> lineCount st' = lineCount st + 1
     \<and> errorFile st' = errorFile st \<and> headerProcessed st' = headerProcessed st"
  using sendLine_cases [of env i args line "countLine args line st"]
  by (auto simp: ingestLine_def countLine_keeps)

lemma ingestLine_accepted_cancelled:
  "headerProcessed st \<or> \<not> isHeaderLine env line \<Longrightarrow>
   ValidateLine (lib env) line (timeNow env i) = (True, reason) \<Longrightarrow>
   sendOutcome env i = SendCancelled \<Longrightarrow>
   \<exists>st'. ingestLine env args i line st = Return (Some CtxCancelled) st'
     \<and> errorFile st' = errorFile st"
  using sendLine_cancelled [of env i args line "countLine args line st"]
  by (auto simp: ingestLine_def countLine_keeps)

text \<open>
  The error file after the loop, whenever and however the loop ends: what it held, then
  the records of the rejected ones among the validated lines.
\<close>

lemma runIngest_from_errorFile:
  assumes wr: "\<forall>i. \<not> errWriteFails env i" and w: "hasErrWriter args"
  shows "errorFile (snd (runIngest_from env args i ls st))
         = errorFile st
           @ rejectRecords env (lineCount st) (validatedLines env (headerProcessed st) i ls)"
proof (induction ls arbitrary: i st)
  case Nil
  then show ?case by simp
next
  case (Cons line rest)
  show ?case
  proof (cases "ctxDone env i \<or> line = []")
    case True
    then show ?thesis using Cons by auto
  next
    case False
    then have nc: "\<not> ctxDone env i" and ne: "line \<noteq> []" by simp_all
    show ?thesis
    proof (cases "\<not> headerProcessed st \<and> isHeaderLine env line")
      case True
      with ingestLine_header [of st env line args i] obtain st'
        where "ingestLine env args i line st = Continue st'" "lineCount st' = lineCount st"
          "errorFile st' = errorFile st" "headerProcessed st'"
        by blast
      then show ?thesis using nc ne True Cons [of "i + 1" st'] by simp
    next
      case nh0: False
      then have nh: "headerProcessed st \<or> \<not> isHeaderLine env line" by blast
      obtain ok reason where v: "ValidateLine (lib env) line (timeNow env i) = (ok, reason)"
        by (cases "ValidateLine (lib env) line (timeNow env i)")
      show ?thesis
      proof (cases ok)
        case True
        with v have v': "ValidateLine (lib env) line (timeNow env i) = (True, reason)"
          by simp
        show ?thesis
        proof (cases "sendOutcome env i = SendCancelled")
          case sc: True
          with ingestLine_accepted_cancelled [OF nh v', of args] obtain st'
            where "ingestLine env args i line st = Return (Some CtxCancelled) st'"
              "errorFile st' = errorFile st"
            by blast
          then show ?thesis using nc ne nh0 v' sc by auto
        next
          case ns: False
          with ingestLine_accepted [OF nh v', of args] obtain st'
            where "ingestLine env args i line st = Continue st'"
              "lineCount st' = lineCount st + 1" "errorFile st' = errorFile st"
              "headerProcessed st' = headerProcessed st"
            by blast
          then show ?thesis using nc ne nh0 v' ns Cons [of "i + 1" st'] by auto
        qed
      next
        case no: False
        with v have v': "ValidateLine (lib env) line (timeNow env i) = (False, reason)"
          by simp
        have "\<not> errWriteFails env i" using wr by simp
        with ingestLine_rejected [OF nh v' w] obtain st'
          where "ingestLine env args i line st = Continue st'"
            "lineCount st' = lineCount st + 1"
            "errorFile st' = errorFile st @ [(lineCount st + 1, line, reason)]"
            "headerProcessed st' = headerProcessed st"
          by blast
        then show ?thesis using nc ne nh0 v' Cons [of "i + 1" st'] by auto
      qed
    qed
  qed
qed

lemma ingestLine_prefix:
  "ingestLine env args i line st = Continue st' \<or> ingestLine env args i line st = Return e st'
   \<Longrightarrow> prefix (errorFile st) (errorFile st')"
proof -
  assume a: "ingestLine env args i line st = Continue st' \<or> ingestLine env args i line st = Return e st'"
  obtain ok reason where v: "ValidateLine (lib env) line (timeNow env i) = (ok, reason)"
    by (cases "ValidateLine (lib env) line (timeNow env i)")
  show ?thesis
  proof (cases "\<not> headerProcessed st \<and> isHeaderLine env line")
    case True
    with a show ?thesis by (auto simp: ingestLine_def headerIndexes_keeps)
  next
    case False
    show ?thesis
    proof (cases ok)
      case True
      with a False v sendLine_errorFile [of env args i line "countLine args line st" st' e]
      show ?thesis by (auto simp: ingestLine_def countLine_keeps)
    next
      case no: False
      with a False v show ?thesis
        by (auto simp: ingestLine_def LineWriter_Write_def)
    qed
  qed
qed

lemma runIngest_from_prefix:
  "prefix (errorFile st) (errorFile (snd (runIngest_from env args i ls st)))"
proof (induction ls arbitrary: i st)
  case Nil
  then show ?case by simp
next
  case (Cons line rest)
  show ?case
  proof (cases "ingestLine env args i line st")
    case (Continue st')
    with ingestLine_prefix [of env args i line st st'] Cons [of st' "i + 1"]
    show ?thesis using Cons [of st "i + 1"] by (auto intro: prefix_order.trans)
  next
    case (Return e st')
    with ingestLine_prefix [of env args i line st st' e]
    show ?thesis using Cons [of st "i + 1"] by auto
  qed
qed

lemma port_99999_rejected:
  assumes "length (Split line (CHR '','')) = 11"
    and "checkPasses lb (Split line (CHR '','')) now IPs"
    and "validPort (Split line (CHR '','') ! 2)"
    and "TrimSpace (Split line (CHR '','') ! 3) = ''99999''"
  shows "ValidateLine lb line now = (False, ''DST_PORT is not valid'')"
proof -
  have "ParseInt ''99999'' = Some 99999"
    by code_simp
  with assms(4) have "\<not> validPort (Split line (CHR '','') ! 3)"
    by (simp add: validPort_def parseInt_def)
  with assms(1-3) show ?thesis
    by (simp add: ValidateLine_def Let_def)
qed

text \<open>
  Claim C9, as amended.  The error file is only ever extended: what it held stays as a
  prefix, whatever happens.  When the error writer is there and its writes succeed,
  every line that validation rejects leaves exactly one record (number, raw line,
  reason) at the end of the file, in input order, and nothing else is written; this
  holds for every run, also one that a cancelled context or a cancelled send ends early,
  where the validated lines are those read before the end.  The number is the 1-based
  position of the line among the validated lines, which are the non-empty lines without
  the header line.  A line of eleven fields with valid IPs and source port whose
  destination port is 99999 is rejected with the destination-port reason.  The amendment
  is the number: it is not the position of the line in the input.
\<close>

theorem rejected_lines_recorded:
  "prefix file (errorFile (snd (runIngest env args file input)))
   \<and> ((\<forall>i. \<not> errWriteFails env i) \<and> hasErrWriter args \<longrightarrow>
        errorFile (snd (runIngest env args file input))
          = file @ rejectRecords env 0 (validatedLines env False 0 input))
   \<and> (length (Split line (CHR '','')) = 11
        \<and> checkPasses lb (Split line (CHR '','')) now IPs
        \<and> validPort (Split line (CHR '','') ! 2)
        \<and> TrimSpace (Split line (CHR '','') ! 3) = ''99999'' \<longrightarrow>
        ValidateLine lb line now = (False, ''DST_PORT is not valid'')
        \<and> reasonCheck ''DST_PORT is not valid'' = Some Ports)"
proof (intro conjI impI)
  show "prefix file (errorFile (snd (runIngest env args file input)))"
    using runIngest_from_prefix [of "initial_state file" env args 0 input]
    by (simp add: runIngest_def initial_state_def)
next
  assume "(\<forall>i. \<not> errWriteFails env i) \<and> hasErrWriter args"
  then show "errorFile (snd (runIngest env args file input))
          = file @ rejectRecords env 0 (validatedLines env False 0 input)"
    using runIngest_from_errorFile [of env args 0 input "initial_state file"]
    by (simp add: runIngest_def initial_state_def)
next
  assume "length (Split line (CHR '','')) = 11
        \<and> checkPasses lb (Split line (CHR '','')) now IPs
        \<and> validPort (Split line (CHR '','') ! 2)
        \<and> TrimSpace (Split line (CHR '','') ! 3) = ''99999''"
  then show "ValidateLine lb line now = (False, ''DST_PORT is not valid'')"
    using port_99999_rejected [of line lb now] by blast
next
  show "reasonCheck ''DST_PORT is not valid'' = Some Ports"
    by (rule reasonCheck_simps)
qed

text \<open>
  The theorem on a file that already holds a record and an input of a header, a line
  with destination port 99999, an empty line, the scenario's line and a line of one
  field: once run to the end, and once cancelled when the loop comes to the last line,
  so that the last line is never validated.
\<close>

theorem rejected_lines_recorded_witness:
  "errorFile (snd (runIngest calm allArgs [(7, ''old line'', ''column count != 11'')]
     [''SRC_IP,DST_IP,SRC_PORT,DST_PORT,TCP_FLAGS,PROTOCOL,TOS,TIMESTAMP_MIN,TIMESTAMP_MAX,PACKETS,BYTES'',
      ''10.0.0.1,10.0.0.2,1234,99999,24,6,0,1700000000,1700000005,10,1500'',
      [],
      ''10.0.0.1,10.0.0.2,1234,80,24,6,0,1700000000,1700000005,10,1500'',
      ''garbage'']))
   = [(7, ''old line'', ''column count != 11''),
      (1, ''10.0.0.1,10.0.0.2,1234,99999,24,6,0,1700000000,1700000005,10,1500'',
       ''DST_PORT is not valid''),
      (3, ''garbage'', ''column count != 11'')]
   \<and> errorFile (snd (runIngest (cancelledAt 4) allArgs [(7, ''old line'', ''column count != 11'')]
     [''SRC_IP,DST_IP,SRC_PORT,DST_PORT,TCP_FLAGS,PROTOCOL,TOS,TIMESTAMP_MIN,TIMESTAMP_MAX,PACKETS,BYTES'',
      ''10.0.0.1,10.0.0.2,1234,99999,24,6,0,1700000000,1700000005,10,1500'',
      [],
      ''10.0.0.1,10.0.0.2,1234,80,24,6,0,1700000000,1700000005,10,1500'',
      ''garbage'']))
   = [(7, ''old line'', ''column count != 11''),
      (1, ''10.0.0.1,10.0.0.2,1234,99999,24,6,0,1700000000,1700000005,10,1500'',
       ''DST_PORT is not valid'')]
   \<and> ValidateLine declib ''10.0.0.1,10.0.0.2,1234,99999,24,6,0,1700000000,1700000005,10,1500''
       1700000006000000000 = (False, ''DST_PORT is not valid'')"
proof -
  let ?input = "[''SRC_IP,DST_IP,SRC_PORT,DST_PORT,TCP_FLAGS,PROTOCOL,TOS,TIMESTAMP_MIN,TIMESTAMP_MAX,PACKETS,BYTES'',
      ''10.0.0.1,10.0.0.2,1234,99999,24,6,0,1700000000,1700000005,10,1500'',
      [],
      ''10.0.0.1,10.0.0.2,1234,80,24,6,0,1700000000,1700000005,10,1500'',
      ''garbage'']"
  let ?bad = "''10.0.0.1,10.0.0.2,1234,99999,24,6,0,1700000000,1700000005,10,1500''"
  let ?old = "[(7 :: int, ''old line'', ''column count != 11'')]"
  have q: "(\<forall>i. \<not> errWriteFails calm i) \<and> hasErrWriter allArgs"
    by (simp add: calm_def allArgs_def)
  have q': "(\<forall>i. \<not> errWriteFails (cancelledAt 4) i) \<and> hasErrWriter allArgs"
    by (simp add: cancelledAt_def calm_def allArgs_def)
  have r: "rejectRecords calm 0 (validatedLines calm False 0 ?input)
           = [(1, ?bad, ''DST_PORT is not valid''), (3, ''garbage'', ''column count != 11'')]"
    by code_simp
  have r': "rejectRecords (cancelledAt 4) 0 (validatedLines (cancelledAt 4) False 0 ?input)
           = [(1, ?bad, ''DST_PORT is not valid'')]"
    by code_simp
  have p: "length (Split ?bad (CHR '','')) = 11
        \<and> checkPasses declib (Split ?bad (CHR '','')) 1700000006000000000 IPs
        \<and> validPort (Split ?bad (CHR '','') ! 2)
        \<and> TrimSpace (Split ?bad (CHR '','') ! 3) = ''99999''"
    by code_simp
  from q r p
    rejected_lines_recorded [of ?old calm allArgs ?input ?bad declib 1700000006000000000]
  have a: "errorFile (snd (runIngest calm allArgs ?old ?input))
             = ?old @ [(1, ?bad, ''DST_PORT is not valid''), (3, ''garbage'', ''column count != 11'')]
           \<and> ValidateLine declib ?bad 1700000006000000000 = (False, ''DST_PORT is not valid'')"
    by simp
  from q' r'
    rejected_lines_recorded [of ?old "cancelledAt 4" allArgs ?input ?bad declib 1700000006000000000]
  have b: "errorFile (snd (runIngest (cancelledAt 4) allArgs ?old ?input))
             = ?old @ [(1, ?bad, ''DST_PORT is not valid'')]"
    by simp
  from a b show ?thesis by simp
qed

text \<open>
  Claim C9 as the specification states it fails on the number: after a header line, the
  rejected line is the second line of the input, and its record carries the number 1.
\<close>

theorem errorFile_number_skips_header:
  "errorFile (snd (runIngest calm allArgs []
     [''SRC_IP,DST_IP,SRC_PORT,DST_PORT,TCP_FLAGS,PROTOCOL,TOS,TIMESTAMP_MIN,TIMESTAMP_MAX,PACKETS,BYTES'',
      ''10.0.0.1,10.0.0.2,1234,99999,24,6,0,1700000000,1700000005,10,1500'']))
   = [(1, ''10.0.0.1,10.0.0.2,1234,99999,24,6,0,1700000000,1700000005,10,1500'',
       ''DST_PORT is not valid'')]"
  by code_simp

end
